theory Spec2Isabelle
  imports Complex_Main
begin

section \<open>Loan backend: offer computation, loan lifecycle, assistant tool dispatch\<close>

text \<open>
  A shallow embedding of \<^verbatim>\<open>backend/app/api/routes/loans.py\<close>,
  \<^verbatim>\<open>backend/app/services/ai_assistant.py\<close>, the schemas they use and the
  configuration defaults of \<^verbatim>\<open>backend/app/config.py\<close>.

  Numbers: a Python \<^verbatim>\<open>int\<close> is an \<^typ>\<open>int\<close>; a Python \<^verbatim>\<open>float\<close> is the rational
  (\<^typ>\<open>rat\<close>) it stands for, and the result of a float operation is the exact result, not
  the nearest double. The conversion of an \<^verbatim>\<open>int\<close> to a \<^verbatim>\<open>float\<close> and the true division
  of two \<^verbatim>\<open>int\<close>s raise \<^verbatim>\<open>OverflowError\<close> as Python does. The binary rounding of float
  results, infinities and NaN are outside the model: the theorems that settle a claim
  state the value of a float result only at inputs where every intermediate value is a
  double.
\<close>

subsection \<open>Errors\<close>

text \<open>
  Every exception the modelled code can raise. \<open>RequestValidationError\<close> is the
  pydantic rejection of a request body (HTTP 422); \<open>HTTPException c d\<close> is FastAPI's
  exception with status code \<open>c\<close> and detail \<open>d\<close>; \<open>APIError\<close> is a failed call of the
  hosted database; \<open>Exception m\<close> is Python's plain \<^verbatim>\<open>Exception(m)\<close>.
  \<open>LoanAmountRange lo hi\<close> is the \<^verbatim>\<open>HTTPException\<close> with status code 400 whose detail is
  \<^verbatim>\<open>f"Loan amount must be between {lo} and {hi}"\<close>: it carries the two numbers the text
  is formatted from.
\<close>

datatype error =
    RequestValidationError
  | HTTPException nat string
  | LoanAmountRange rat rat
  | KeyError string
  | TypeError
  | ZeroDivisionError
  | OverflowError
  | IndexError
  | APIError
  | Exception string

subsection \<open>Configuration\<close>

record settings =
  DEFAULT_INTEREST_RATE :: rat
  MIN_LOAN_AMOUNT :: rat
  MAX_LOAN_AMOUNT :: rat
  DEFAULT_LOAN_TENURE_DAYS :: int

text \<open>The defaults written in \<^verbatim>\<open>class Settings\<close>.\<close>

definition default_settings :: settings where
  "default_settings =
     \<lparr>DEFAULT_INTEREST_RATE = 15, MIN_LOAN_AMOUNT = 1000,
      MAX_LOAN_AMOUNT = 50000, DEFAULT_LOAN_TENURE_DAYS = 30\<rparr>"

subsection \<open>Rounding\<close>

text \<open>
  Python's \<^verbatim>\<open>round(x, 2)\<close>: the nearest multiple of 1/100, a tie going to the even
  one.
\<close>

definition round_half_even :: "rat \<Rightarrow> int" where
  "round_half_even y =
     (let f = \<lfloor>y\<rfloor>; d = y - of_int f
      in if d < 1 / 2 then f
         else if 1 / 2 < d then f + 1
         else if even f then f else f + 1)"

definition round2 :: "rat \<Rightarrow> rat" where
  "round2 x = of_int (round_half_even (x * 100)) / 100"

subsection \<open>Python numbers\<close>

text \<open>
  The operands of Python's arithmetic: an \<^verbatim>\<open>int\<close> or a \<^verbatim>\<open>float\<close>.
\<close>

datatype py_num = PInt int | PFloat rat

text \<open>
  Python converts an \<^verbatim>\<open>int\<close> to the nearest double, ties to even, and the conversion
  raises \<^verbatim>\<open>OverflowError\<close> when that is beyond the largest double: from the magnitude
  \<open>2 ^ 1024 - 2 ^ 970\<close> on. The quotient of the true division of two \<^verbatim>\<open>int\<close>s has the
  same bound. The model raises where Python raises and otherwise keeps the exact value.
\<close>

definition overflows :: "rat \<Rightarrow> bool" where
  "overflows x = (2 ^ 1024 - 2 ^ 970 \<le> \<bar>x\<bar>)"

fun to_float :: "py_num \<Rightarrow> error + rat" where
  "to_float (PFloat x) = Inr x"
| "to_float (PInt n) = (if overflows (of_int n) then Inl OverflowError else Inr (of_int n))"

text \<open>
  \<^verbatim>\<open>x * y\<close>, \<^verbatim>\<open>x + y\<close> and \<^verbatim>\<open>x / y\<close> on numbers. Two \<^verbatim>\<open>int\<close>s are multiplied and
  added exactly; with a \<^verbatim>\<open>float\<close> operand the other operand is converted first. A float
  operation itself does not raise, except the division by zero.
\<close>

fun py_mul :: "py_num \<Rightarrow> py_num \<Rightarrow> error + py_num" where
  "py_mul (PInt a) (PInt b) = Inr (PInt (a * b))"
| "py_mul x y =
     (case to_float x of
        Inl e \<Rightarrow> Inl e
      | Inr fx \<Rightarrow> (case to_float y of Inl e \<Rightarrow> Inl e | Inr fy \<Rightarrow> Inr (PFloat (fx * fy))))"

fun py_add :: "py_num \<Rightarrow> py_num \<Rightarrow> error + py_num" where
  "py_add (PInt a) (PInt b) = Inr (PInt (a + b))"
| "py_add x y =
     (case to_float x of
        Inl e \<Rightarrow> Inl e
      | Inr fx \<Rightarrow> (case to_float y of Inl e \<Rightarrow> Inl e | Inr fy \<Rightarrow> Inr (PFloat (fx + fy))))"

fun py_truediv :: "py_num \<Rightarrow> py_num \<Rightarrow> error + py_num" where
  "py_truediv (PInt a) (PInt b) =
     (if b = 0 then Inl ZeroDivisionError
      else if overflows (of_int a / of_int b) then Inl OverflowError
      else Inr (PFloat (of_int a / of_int b)))"
| "py_truediv x y =
     (case to_float x of
        Inl e \<Rightarrow> Inl e
      | Inr fx \<Rightarrow>
          (case to_float y of
             Inl e \<Rightarrow> Inl e
           | Inr fy \<Rightarrow> if fy = 0 then Inl ZeroDivisionError else Inr (PFloat (fx / fy))))"

text \<open>Sequencing of steps that can raise.\<close>

definition and_then :: "error + 'a \<Rightarrow> ('a \<Rightarrow> error + 'b) \<Rightarrow> error + 'b" where
  "and_then r f = (case r of Inl e \<Rightarrow> Inl e | Inr v \<Rightarrow> f v)"

subsection \<open>The offer computation of the HTTP route\<close>

record LoanCalculateRequest =
  amount :: rat
  interest_rate :: "rat option"
  tenure_days :: "int option"

record LoanCalculateResponse =
  r_amount :: rat
  r_interest_rate :: rat
  r_tenure_days :: int
  r_interest_amount :: rat
  r_total_repayment :: rat
  r_daily_interest :: rat

text \<open>
  The field constraints of \<^verbatim>\<open>LoanCalculateRequest\<close>: \<^verbatim>\<open>amount: float = Field(..., gt=0)\<close>,
  \<^verbatim>\<open>tenure_days: Optional[int] = Field(default=30, gt=0)\<close>; the rate is unconstrained.
\<close>

definition validate_request :: "LoanCalculateRequest \<Rightarrow> bool" where
  "validate_request req =
     (0 < amount req \<and> (case tenure_days req of None \<Rightarrow> True | Some d \<Rightarrow> 0 < d))"

text \<open>
  Python's \<^verbatim>\<open>x or default\<close>: the default replaces \<^verbatim>\<open>None\<close> and every falsy value,
  so also the number zero.
\<close>

definition or_default :: "'a::zero option \<Rightarrow> 'a \<Rightarrow> 'a" where
  "or_default x d = (case x of None \<Rightarrow> d | Some v \<Rightarrow> if v = 0 then d else v)"

text \<open>
  \<^verbatim>\<open>round(x, 2)\<close> as it is stored in a \<^verbatim>\<open>float\<close> field of the response.
\<close>

fun rounded :: "py_num \<Rightarrow> rat" where
  "rounded (PFloat x) = round2 x"
| "rounded (PInt n) = of_int n"

text \<open>
  \<^verbatim>\<open>POST /loans/calculate\<close>: the request body is validated by the schema before the
  handler runs; the handler then defaults rate and tenure, checks the range and computes
  the three statements of lines 37-39 in Python's order, on the \<^verbatim>\<open>float\<close> amount, the
  \<^verbatim>\<open>float\<close> rate and the \<^verbatim>\<open>int\<close> tenure.
\<close>

definition calculate_loan :: "settings \<Rightarrow> LoanCalculateRequest \<Rightarrow> error + LoanCalculateResponse" where
  "calculate_loan cfg req =
     (if \<not> validate_request req then Inl RequestValidationError
      else
        let a = amount req;
            r = or_default (interest_rate req) (DEFAULT_INTEREST_RATE cfg);
            t = or_default (tenure_days req) (DEFAULT_LOAN_TENURE_DAYS cfg)
        in if a < MIN_LOAN_AMOUNT cfg \<or> MAX_LOAN_AMOUNT cfg < a
           then Inl (LoanAmountRange (MIN_LOAN_AMOUNT cfg) (MAX_LOAN_AMOUNT cfg))
           else
             and_then (py_mul (PFloat a) (PFloat r)) (\<lambda>p.
             and_then (py_truediv p (PInt 100)) (\<lambda>x.
             and_then (py_truediv (PInt t) (PInt 30)) (\<lambda>y.
             and_then (py_mul x y) (\<lambda>interest_amount.
             and_then (py_add (PFloat a) interest_amount) (\<lambda>total_repayment.
             and_then (py_truediv interest_amount (PInt t)) (\<lambda>daily_interest.
               Inr \<lparr>r_amount = a, r_interest_rate = r, r_tenure_days = t,
                    r_interest_amount = rounded interest_amount,
                    r_total_repayment = rounded total_repayment,
                    r_daily_interest = rounded daily_interest\<rparr>)))))))"

subsection \<open>Tables of the hosted database\<close>

datatype LoanStatus = PENDING | APPROVED | REJECTED | ACTIVE | COMPLETED | DEFAULTED

fun LoanStatus_value :: "LoanStatus \<Rightarrow> string" where
  "LoanStatus_value PENDING = ''pending''"
| "LoanStatus_value APPROVED = ''approved''"
| "LoanStatus_value REJECTED = ''rejected''"
| "LoanStatus_value ACTIVE = ''active''"
| "LoanStatus_value COMPLETED = ''completed''"
| "LoanStatus_value DEFAULTED = ''defaulted''"

datatype TransactionType = DISBURSEMENT | REPAYMENT | FEE | PENALTY | REFUND

fun TransactionType_value :: "TransactionType \<Rightarrow> string" where
  "TransactionType_value DISBURSEMENT = ''disbursement''"
| "TransactionType_value REPAYMENT = ''repayment''"
| "TransactionType_value FEE = ''fee''"
| "TransactionType_value PENALTY = ''penalty''"
| "TransactionType_value REFUND = ''refund''"

text \<open>
  JSON values, as \<^verbatim>\<open>json.loads\<close> delivers them and \<^verbatim>\<open>json.dumps\<close> takes them:
  \<open>JInt\<close> is a Python \<^verbatim>\<open>int\<close> (a JSON number written without fraction or exponent),
  \<open>JNum\<close> a Python \<^verbatim>\<open>float\<close>. A Python dict is an association list read with
  \<^const>\<open>map_of\<close>.
\<close>

datatype json =
    JNull
  | JBool bool
  | JInt int
  | JNum rat
  | JStr string
  | JArr "json list"
  | JObj "(string \<times> json) list"

text \<open>
  The rows. Columns the modelled code neither reads nor writes (\<^verbatim>\<open>disbursed_at\<close>,
  \<^verbatim>\<open>due_date\<close>, \<^verbatim>\<open>updated_at\<close>, \<^verbatim>\<open>reference_id\<close>) are left out. Row keys and
  \<^verbatim>\<open>created_at\<close> are assigned by the database on insert.
\<close>

record loan =
  loan_id :: string
  loan_user_id :: string
  loan_amount :: rat
  loan_interest_rate :: rat
  loan_tenure_days :: int
  loan_total_repayment :: rat
  loan_status :: LoanStatus
  loan_approved_by :: "string option"
  loan_approved_at :: "string option"
  loan_ai_decision :: "string option"
  loan_ai_confidence :: "rat option"
  loan_created_at :: nat

record txn =
  txn_loan_id :: string
  txn_user_id :: string
  txn_type :: TransactionType
  txn_amount :: rat
  txn_balance_after :: "rat option"
  txn_notes :: "string option"
  txn_created_at :: nat

record thread =
  thread_id :: nat
  thread_user_id :: string
  openai_thread_id :: string
  thread_status :: string
  thread_created_at :: nat

record message =
  message_thread_id :: nat
  message_role :: string
  message_content :: string
  message_created_at :: nat

text \<open>
  The state the code works on: the tables, the database's counter for keys and
  timestamps, and the tool outputs handed to the assistant API so far (one list per
  \<^verbatim>\<open>submit_tool_outputs\<close> call).
\<close>

record state =
  loans :: "loan list"
  transactions :: "txn list"
  conversation_threads :: "thread list"
  messages :: "message list"
  customer_profiles :: "(string \<times> json) list list"
  clock :: nat
  submitted_tool_outputs :: "(string \<times> json) list list"

text \<open>\<^verbatim>\<open>.order("created_at", desc=True)\<close>.\<close>

definition order_desc :: "('a \<Rightarrow> nat) \<Rightarrow> 'a list \<Rightarrow> 'a list" where
  "order_desc f xs = rev (sort_key f xs)"

subsection \<open>Authentication dependencies\<close>

text \<open>
  \<open>user\<close> is the row of \<^verbatim>\<open>users\<close> that \<^verbatim>\<open>get_current_user\<close> resolves from the bearer
  token; decoding the token is outside the model. A route runs its dependency first and
  is not entered when the dependency raises.
\<close>

record user =
  user_id :: string
  user_role :: string
  user_status :: string

definition get_current_active_user :: "user \<Rightarrow> error + user" where
  "get_current_active_user current_user =
     (if user_status current_user \<noteq> ''active'' then Inl (HTTPException 403 ''Inactive user'')
      else Inr current_user)"


subsection \<open>Loan routes\<close>




text \<open>
  \<^verbatim>\<open>POST /loans/{loan_id}/accept\<close> makes three calls of the database: a select, an
  update and an insert, each its own request. Any of them can raise; \<open>call_outcomes\<close>
  says which succeed, so that a failure between the two writes is an input of the model.
  In the other functions the calls of the database and of the assistant API are taken to
  succeed.
\<close>

record call_outcomes =
  select_ok :: bool
  update_ok :: bool
  insert_ok :: bool

definition all_ok :: call_outcomes where
  "all_ok = \<lparr>select_ok = True, update_ok = True, insert_ok = True\<rparr>"

definition disbursement :: "string \<Rightarrow> string \<Rightarrow> loan \<Rightarrow> nat \<Rightarrow> txn" where
  "disbursement lid uid l t =
     \<lparr>txn_loan_id = lid, txn_user_id = uid, txn_type = DISBURSEMENT,
      txn_amount = loan_amount l, txn_balance_after = Some (loan_total_repayment l),
      txn_notes = Some ''Loan disbursement'', txn_created_at = t\<rparr>"

definition accept_loan ::
  "call_outcomes \<Rightarrow> string \<Rightarrow> user \<Rightarrow> string \<Rightarrow> state \<Rightarrow> (error + loan) \<times> state" where
  "accept_loan oc lid u now s =
     (case get_current_active_user u of
        Inl e \<Rightarrow> (Inl e, s)
      | Inr current_user \<Rightarrow>
          if \<not> select_ok oc then (Inl APIError, s)
          else
            (case filter (\<lambda>l. loan_id l = lid \<and> loan_user_id l = user_id current_user) (loans s) of
              [] \<Rightarrow> (Inl (HTTPException 404 ''Loan not found''), s)
            | l # _ \<Rightarrow>
                if loan_status l \<noteq> PENDING
                then (Inl (HTTPException 400 ''Loan cannot be accepted in current status''), s)
                else if \<not> update_ok oc then (Inl APIError, s)
                else
                  let s1 = s\<lparr>loans := map (\<lambda>r. if loan_id r = lid
                                                 then r\<lparr>loan_status := APPROVED, loan_approved_at := Some now\<rparr>
                                                 else r) (loans s)\<rparr>;
                      updated_loan = filter (\<lambda>r. loan_id r = lid) (loans s1)
                  in if \<not> insert_ok oc then (Inl APIError, s1)
                     else
                       let s2 = s1\<lparr>transactions :=
                                     transactions s1 @ [disbursement lid (user_id current_user) l (clock s1)],
                                   clock := Suc (clock s1)\<rparr>
                       in (case updated_loan of
                             [] \<Rightarrow> (Inl IndexError, s2)
                           | r # _ \<Rightarrow> (Inr r, s2))))"

subsection \<open>Assistant tool handlers\<close>

text \<open>Python truthiness of a decoded JSON value.\<close>

fun truthy :: "json \<Rightarrow> bool" where
  "truthy JNull = False"
| "truthy (JBool b) = b"
| "truthy (JInt n) = (n \<noteq> 0)"
| "truthy (JNum x) = (x \<noteq> 0)"
| "truthy (JStr s) = (s \<noteq> [])"
| "truthy (JArr xs) = (xs \<noteq> [])"
| "truthy (JObj kvs) = (kvs \<noteq> [])"

text \<open>
  A decoded value as a number: an \<^verbatim>\<open>int\<close>, a \<^verbatim>\<open>bool\<close> (the \<^verbatim>\<open>int\<close> 0 or 1) or a
  \<^verbatim>\<open>float\<close>.
\<close>

fun num_of :: "json \<Rightarrow> py_num option" where
  "num_of (JInt n) = Some (PInt n)"
| "num_of (JBool b) = Some (PInt (if b then 1 else 0))"
| "num_of (JNum x) = Some (PFloat x)"
| "num_of _ = None"

text \<open>\<^verbatim>\<open>round(x, 2)\<close>: an \<^verbatim>\<open>int\<close> is returned as it is.\<close>

fun py_round2 :: "py_num \<Rightarrow> json" where
  "py_round2 (PInt n) = JInt n"
| "py_round2 (PFloat x) = JNum (round2 x)"

text \<open>A decoded value used as an operand: anything but a number raises \<^verbatim>\<open>TypeError\<close>.\<close>

definition operand :: "json \<Rightarrow> error + py_num" where
  "operand v = (case num_of v of None \<Rightarrow> Inl TypeError | Some x \<Rightarrow> Inr x)"

text \<open>\<^verbatim>\<open>args.get(key, default)\<close>: the default stands in for an absent key only.\<close>

definition dict_get :: "(string \<times> json) list \<Rightarrow> string \<Rightarrow> json \<Rightarrow> json" where
  "dict_get args k d = (case map_of args k of None \<Rightarrow> d | Some v \<Rightarrow> v)"

text \<open>
  \<^verbatim>\<open>_calculate_loan\<close> of the assistant manager, named \<open>tool_calculate_loan\<close> here since
  the route has the name \<open>calculate_loan\<close>: no check of the amount's range. The arguments
  are untyped, so the same three statements (lines 318-320) are evaluated on whatever
  numbers the arguments hold, each argument read where it is first used; the defaults are the
  \<^verbatim>\<open>float\<close> rate and the \<^verbatim>\<open>int\<close> tenure of the settings. For an operand that is a text
  or a list Python's \<^verbatim>\<open>*\<close> is a repetition, which fails at the division that follows
  (or before it, for a count too large); the model gives \<^verbatim>\<open>TypeError\<close> for every operand
  that is not a number.
\<close>

definition tool_calculate_loan :: "settings \<Rightarrow> (string \<times> json) list \<Rightarrow> error + json" where
  "tool_calculate_loan cfg args =
     (case map_of args ''amount'' of
        None \<Rightarrow> Inl (KeyError ''amount'')
      | Some amount' \<Rightarrow>
          let interest_rate' = dict_get args ''interest_rate'' (JNum (DEFAULT_INTEREST_RATE cfg));
              tenure_days' = dict_get args ''tenure_days'' (JInt (DEFAULT_LOAN_TENURE_DAYS cfg))
          in and_then (operand amount') (\<lambda>a.
             and_then (operand interest_rate') (\<lambda>r.
             and_then (py_mul a r) (\<lambda>p.
             and_then (py_truediv p (PInt 100)) (\<lambda>x.
             and_then (operand tenure_days') (\<lambda>t.
             and_then (py_truediv t (PInt 30)) (\<lambda>y.
             and_then (py_mul x y) (\<lambda>interest_amount.
             and_then (py_add a interest_amount) (\<lambda>total_repayment.
             and_then (py_truediv interest_amount t) (\<lambda>daily_interest.
               Inr (JObj [(''amount'', amount'),
                          (''interest_rate'', interest_rate'),
                          (''tenure_days'', tenure_days'),
                          (''interest_amount'', py_round2 interest_amount),
                          (''total_repayment'', py_round2 total_repayment),
                          (''daily_interest'', py_round2 daily_interest)])))))))))))"

text \<open>
  The operands among which an \<^verbatim>\<open>int\<close> is beyond the doubles at one of the conversions
  the three statements make: the amount (converted for the product with a \<^verbatim>\<open>float\<close> rate,
  and for the sum), the rate (converted for the product with a \<^verbatim>\<open>float\<close> amount), the
  quotient by 100 of the product of an \<^verbatim>\<open>int\<close> amount and an \<^verbatim>\<open>int\<close> rate, and the
  tenure (converted for the last division).
\<close>

fun int_overflows :: "py_num \<Rightarrow> bool" where
  "int_overflows (PInt n) = overflows (of_int n)"
| "int_overflows (PFloat x) = False"

fun product_overflows :: "py_num \<Rightarrow> py_num \<Rightarrow> bool" where
  "product_overflows (PInt m) (PInt k) = overflows (of_int (m * k) / 100)"
| "product_overflows (PInt m) (PFloat r) = overflows (of_int m)"
| "product_overflows (PFloat a) (PInt k) = overflows (of_int k)"
| "product_overflows (PFloat a) (PFloat r) = False"

definition int_too_large :: "py_num \<Rightarrow> py_num \<Rightarrow> py_num \<Rightarrow> bool" where
  "int_too_large a r t = (product_overflows a r \<or> int_overflows a \<or> int_overflows t)"

text \<open>
  \<^verbatim>\<open>_store_acceptance\<close>: the update is filtered by \<^verbatim>\<open>.eq("id", loan_id)\<close> alone; the
  calling user is not used, the current status is not read, and the result of the update
  is not inspected. The timestamp written is the literal text \<^verbatim>\<open>"now()"\<close>.
\<close>

definition store_acceptance ::
  "(string \<times> json) list \<Rightarrow> string \<Rightarrow> state \<Rightarrow> (error + json) \<times> state" where
  "store_acceptance args uid s =
     (case map_of args ''loan_id'' of
        None \<Rightarrow> (Inl (KeyError ''loan_id''), s)
      | Some lid \<Rightarrow>
          (case map_of args ''accepted'' of
             None \<Rightarrow> (Inl (KeyError ''accepted''), s)
           | Some accepted \<Rightarrow>
               let status = (if truthy accepted then APPROVED else REJECTED);
                   s' = s\<lparr>loans := map (\<lambda>l. if JStr (loan_id l) = lid
                                                then l\<lparr>loan_status := status,
                                                       loan_approved_at :=
                                                         (if truthy accepted then Some ''now()'' else None)\<rparr>
                                                else l) (loans s)\<rparr>
               in (Inr (JObj [(''success'', JBool True),
                              (''status'', JStr (LoanStatus_value status))]), s')))"

text \<open>Rows as the JSON objects the database client returns.\<close>

definition opt_json :: "('a \<Rightarrow> json) \<Rightarrow> 'a option \<Rightarrow> json" where
  "opt_json f x = (case x of None \<Rightarrow> JNull | Some v \<Rightarrow> f v)"

definition loan_json :: "loan \<Rightarrow> json" where
  "loan_json l =
     JObj [(''id'', JStr (loan_id l)), (''user_id'', JStr (loan_user_id l)),
           (''amount'', JNum (loan_amount l)), (''interest_rate'', JNum (loan_interest_rate l)),
           (''tenure_days'', JInt (loan_tenure_days l)),
           (''total_repayment'', JNum (loan_total_repayment l)),
           (''status'', JStr (LoanStatus_value (loan_status l))),
           (''approved_by'', opt_json JStr (loan_approved_by l)),
           (''approved_at'', opt_json JStr (loan_approved_at l)),
           (''ai_decision'', opt_json JStr (loan_ai_decision l)),
           (''ai_confidence'', opt_json JNum (loan_ai_confidence l)),
           (''created_at'', JInt (int (loan_created_at l)))]"

definition txn_json :: "txn \<Rightarrow> json" where
  "txn_json t =
     JObj [(''loan_id'', JStr (txn_loan_id t)), (''user_id'', JStr (txn_user_id t)),
           (''type'', JStr (TransactionType_value (txn_type t))),
           (''amount'', JNum (txn_amount t)),
           (''balance_after'', opt_json JNum (txn_balance_after t)),
           (''notes'', opt_json JStr (txn_notes t)),
           (''created_at'', JInt (int (txn_created_at t)))]"

definition get_loan_info :: "string \<Rightarrow> state \<Rightarrow> json" where
  "get_loan_info uid s =
     JObj [(''loans'',
              JArr (map loan_json
                (order_desc loan_created_at (filter (\<lambda>l. loan_user_id l = uid) (loans s))))),
           (''transactions'',
              JArr (map txn_json
                (take 10 (order_desc txn_created_at
                   (filter (\<lambda>t. txn_user_id t = uid) (transactions s))))))]"

text \<open>
  A dict literal with \<^verbatim>\<open>**profile_data\<close>: a later key replaces the value of an
  earlier equal key and keeps its place.
\<close>

fun dict_set :: "(string \<times> json) list \<Rightarrow> string \<Rightarrow> json \<Rightarrow> (string \<times> json) list" where
  "dict_set [] k v = [(k, v)]"
| "dict_set ((k', v') # kvs) k v = (if k' = k then (k, v) # kvs else (k', v') # dict_set kvs k v)"

definition dict_update :: "(string \<times> json) list \<Rightarrow> (string \<times> json) list \<Rightarrow> (string \<times> json) list" where
  "dict_update d new = foldl (\<lambda>acc (k, v). dict_set acc k v) d new"

text \<open>
  \<^verbatim>\<open>.upsert(row)\<close> on \<^verbatim>\<open>customer_profiles\<close>, the conflict key taken to be
  \<^verbatim>\<open>user_id\<close>: the row of that user takes the new columns, or the row is added.
\<close>

fun upsert_profile :: "(string \<times> json) list \<Rightarrow> (string \<times> json) list list \<Rightarrow> (string \<times> json) list list" where
  "upsert_profile row [] = [row]"
| "upsert_profile row (p # ps) =
     (if map_of p ''user_id'' = map_of row ''user_id'' then dict_update p row # ps
      else p # upsert_profile row ps)"

definition complete_onboarding ::
  "(string \<times> json) list \<Rightarrow> state \<Rightarrow> (error + json) \<times> state" where
  "complete_onboarding args s =
     (case map_of args ''user_id'' of
        None \<Rightarrow> (Inl (KeyError ''user_id''), s)
      | Some uid \<Rightarrow>
          (case map_of args ''profile_data'' of
             None \<Rightarrow> (Inl (KeyError ''profile_data''), s)
           | Some (JObj profile_data) \<Rightarrow>
               let row = dict_update [(''user_id'', uid)]
                           (profile_data @ [(''onboarding_completed'', JBool True),
                                            (''onboarding_completed_at'', JStr ''now()'')])
               in (Inr (JObj [(''success'', JBool True), (''onboarding_completed'', JBool True)]),
                   s\<lparr>customer_profiles := upsert_profile row (customer_profiles s)\<rparr>)
           | Some _ \<Rightarrow> (Inl TypeError, s)))"

text \<open>\<^verbatim>\<open>_execute_function\<close>: dispatch by name, in the source's order.\<close>

definition execute_function ::
  "settings \<Rightarrow> string \<Rightarrow> (string \<times> json) list \<Rightarrow> string \<Rightarrow> state \<Rightarrow> (error + json) \<times> state" where
  "execute_function cfg function_name arguments uid s =
     (if function_name = ''calculate_loan_offer'' then (tool_calculate_loan cfg arguments, s)
      else if function_name = ''store_customer_acceptance'' then store_acceptance arguments uid s
      else if function_name = ''get_loan_info'' then (Inr (get_loan_info uid s), s)
      else if function_name = ''complete_onboarding'' then complete_onboarding arguments s
      else (Inr (JObj [(''error'', JStr ''Unknown function'')]), s))"

subsection \<open>Tool-call batches\<close>

text \<open>
  A tool call as the assistant API delivers it; \<open>tc_arguments\<close> is the object that
  \<^verbatim>\<open>json.loads(tool_call.function.arguments)\<close> yields. The output kept for a call is
  the handler's result, before \<^verbatim>\<open>json.dumps\<close> turns it into text.
\<close>

record tool_call =
  tc_id :: string
  tc_name :: string
  tc_arguments :: "(string \<times> json) list"

text \<open>
  \<^verbatim>\<open>_handle_tool_calls\<close>: the calls run in order; an exception of one of them ends
  the batch, and what earlier calls wrote stays written.
\<close>

fun handle_tool_calls ::
  "settings \<Rightarrow> tool_call list \<Rightarrow> string \<Rightarrow> state \<Rightarrow> (error + (string \<times> json) list) \<times> state" where
  "handle_tool_calls cfg [] uid s = (Inr [], s)"
| "handle_tool_calls cfg (tc # tcs) uid s =
     (case execute_function cfg (tc_name tc) (tc_arguments tc) uid s of
        (Inl e, s') \<Rightarrow> (Inl e, s')
      | (Inr result, s') \<Rightarrow>
          (case handle_tool_calls cfg tcs uid s' of
             (Inl e, s'') \<Rightarrow> (Inl e, s'')
           | (Inr tool_outputs, s'') \<Rightarrow> (Inr ((tc_id tc, result) # tool_outputs), s'')))"

subsection \<open>Conversation threads and messages\<close>

text \<open>
  \<^verbatim>\<open>create_thread\<close>: \<open>new_handle\<close> is the id of the thread the assistant API
  creates; the row is inserted with status \<^verbatim>\<open>active\<close>.
\<close>

definition create_thread :: "string \<Rightarrow> string \<Rightarrow> state \<Rightarrow> thread \<times> state" where
  "create_thread uid new_handle s =
     (let row = \<lparr>thread_id = clock s, thread_user_id = uid, openai_thread_id = new_handle,
                 thread_status = ''active'', thread_created_at = clock s\<rparr>
      in (row, s\<lparr>conversation_threads := conversation_threads s @ [row], clock := Suc (clock s)\<rparr>))"

text \<open>The query of \<^verbatim>\<open>get_or_create_thread\<close>: the user's active threads, newest first, at most one.\<close>

definition active_thread :: "string \<Rightarrow> state \<Rightarrow> thread list" where
  "active_thread uid s =
     take 1 (order_desc thread_created_at
       (filter (\<lambda>t. thread_user_id t = uid \<and> thread_status t = ''active'') (conversation_threads s)))"

definition get_or_create_thread :: "string \<Rightarrow> string \<Rightarrow> state \<Rightarrow> string \<times> state" where
  "get_or_create_thread uid new_handle s =
     (case active_thread uid s of
        t # _ \<Rightarrow> (openai_thread_id t, s)
      | [] \<Rightarrow> (let (thread_data, s') = create_thread uid new_handle s
               in (openai_thread_id thread_data, s')))"

text \<open>\<^verbatim>\<open>_store_message\<close>: nothing is stored when no thread row has the handle.\<close>

definition store_message :: "string \<Rightarrow> string \<Rightarrow> string \<Rightarrow> state \<Rightarrow> state" where
  "store_message tid role content s =
     (case filter (\<lambda>t. openai_thread_id t = tid) (conversation_threads s) of
        [] \<Rightarrow> s
      | t # _ \<Rightarrow>
          s\<lparr>messages := messages s @
                 [\<lparr>message_thread_id = thread_id t, message_role = role,
                   message_content = content, message_created_at = clock s\<rparr>],
            clock := Suc (clock s)\<rparr>)"

subsection \<open>Sending a message\<close>

text \<open>
  What one \<^verbatim>\<open>runs.retrieve\<close> returns: the status of the run and, when it is
  \<^verbatim>\<open>requires_action\<close>, the tool calls asked for.
\<close>

record run =
  run_status :: string
  run_tool_calls :: "tool_call list"

text \<open>
  The \<^verbatim>\<open>while True\<close> loop of \<^verbatim>\<open>send_message\<close>, driven by the answers the
  assistant API gives to the successive polls. \<open>None\<close>: the answers are used up and the
  loop is still polling (the source has no bound and no timeout). \<open>Some (Inr ())\<close>: the
  loop was left by \<^verbatim>\<open>break\<close>. \<open>Some (Inl e)\<close>: it raised \<open>e\<close>.
\<close>

fun poll_run :: "settings \<Rightarrow> string \<Rightarrow> run list \<Rightarrow> state \<Rightarrow> (error + unit) option \<times> state" where
  "poll_run cfg uid [] s = (None, s)"
| "poll_run cfg uid (p # ps) s =
     (if run_status p = ''completed'' then (Some (Inr ()), s)
      else if run_status p = ''requires_action'' then
        (case handle_tool_calls cfg (run_tool_calls p) uid s of
           (Inl e, s') \<Rightarrow> (Some (Inl e), s')
         | (Inr tool_outputs, s') \<Rightarrow>
             poll_run cfg uid ps
               (s'\<lparr>submitted_tool_outputs := submitted_tool_outputs s' @ [tool_outputs]\<rparr>))
      else if run_status p \<in> set [''failed'', ''cancelled'', ''expired'']
      then (Some (Inl (Exception (''Run failed with status: '' @ run_status p))), s)
      else poll_run cfg uid ps s)"

record ChatResponse =
  cr_message :: string
  cr_thread_id :: string
  cr_role :: string

text \<open>
  \<^verbatim>\<open>send_message\<close>. \<open>polls\<close> are the answers to the polls, \<open>latest\<close> the texts that
  \<^verbatim>\<open>messages.list(order="desc", limit=1)\<close> returns after the loop. The result
  \<open>Some (Inr None)\<close> is Python's \<^verbatim>\<open>return None\<close>.
\<close>

definition send_message ::
  "settings \<Rightarrow> string \<Rightarrow> string \<Rightarrow> string \<Rightarrow> run list \<Rightarrow> string list \<Rightarrow> state
     \<Rightarrow> (error + ChatResponse option) option \<times> state" where
  "send_message cfg tid msg uid polls latest s =
     (case poll_run cfg uid polls (store_message tid ''user'' msg s) of
        (None, s') \<Rightarrow> (None, s')
      | (Some (Inl e), s') \<Rightarrow> (Some (Inl e), s')
      | (Some (Inr _), s') \<Rightarrow>
          (case latest of
             [] \<Rightarrow> (Some (Inr None), s')
           | assistant_message # _ \<Rightarrow>
               (Some (Inr (Some \<lparr>cr_message = assistant_message, cr_thread_id = tid,
                                 cr_role = ''assistant''\<rparr>)),
                store_message tid ''assistant'' assistant_message s')))"

subsection \<open>Example data\<close>

text \<open>A loan of 1000 at 15 percent for 30 days, its owner, and an administrator.\<close>

definition loan0 :: loan where
  "loan0 = \<lparr>loan_id = ''L1'', loan_user_id = ''u1'', loan_amount = 1000, loan_interest_rate = 15,
      loan_tenure_days = 30, loan_total_repayment = 1150, loan_status = PENDING,
      loan_approved_by = None, loan_approved_at = None, loan_ai_decision = None,
      loan_ai_confidence = None, loan_created_at = 0\<rparr>"

definition state0 :: state where
  "state0 = \<lparr>loans = [loan0], transactions = [], conversation_threads = [], messages = [],
      customer_profiles = [], clock = 1, submitted_tool_outputs = []\<rparr>"

definition customer1 :: user where
  "customer1 = \<lparr>user_id = ''u1'', user_role = ''customer'', user_status = ''active''\<rparr>"


text \<open>The same state with an active conversation thread of the owner.\<close>

definition state1 :: state where
  "state1 = state0\<lparr>conversation_threads :=
      [\<lparr>thread_id = 0, thread_user_id = ''u1'', openai_thread_id = ''thread_1'',
        thread_status = ''active'', thread_created_at = 0\<rparr>]\<rparr>"

section \<open>Properties\<close>

subsection \<open>The offer computation\<close>

text \<open>
  A step that returns hands its value on, and a step that raises ends the sequence. The
  two constants the three statements divide by are doubles, and a quotient by 30 is
  beyond the doubles only when the dividend is.
\<close>

lemma and_then_simps:
  "and_then (Inr v) f = f v" "and_then (Inl e) f = Inl e"
  by (simp_all add: and_then_def)

lemma not_overflows_constants:
  "\<not> overflows 100" "\<not> overflows 30"
  by (simp_all add: overflows_def)

lemma overflows_quotient_30: "overflows (x / 30) \<Longrightarrow> overflows x"
proof -
  have "\<bar>x / 30\<bar> \<le> \<bar>x\<bar>" by simp
  then show "overflows (x / 30) \<Longrightarrow> overflows x"
    unfolding overflows_def by linarith
qed




text \<open>
  C1. At a rate of zero the route does not compute \<open>amount * 0 / 100 * (tenure / 30)\<close>:
  \<^verbatim>\<open>request.interest_rate or settings.DEFAULT_INTEREST_RATE\<close> replaces the zero by the
  default of 15, and the offer for 1000 over 30 days carries an interest of 150. The tool
  handler, which reads the rate with \<^verbatim>\<open>args.get\<close>, computes an interest of 0 from the
  same input.
\<close>

theorem calculate_loan_zero_rate_uses_default:
  "calculate_loan default_settings \<lparr>amount = 1000, interest_rate = Some 0, tenure_days = Some 30\<rparr>
     = Inr \<lparr>r_amount = 1000, r_interest_rate = 15, r_tenure_days = 30,
            r_interest_amount = 150, r_total_repayment = 1150, r_daily_interest = 5\<rparr>
   \<and> tool_calculate_loan default_settings
        [(''amount'', JNum 1000), (''interest_rate'', JNum 0), (''tenure_days'', JNum 30)]
     = Inr (JObj [(''amount'', JNum 1000), (''interest_rate'', JNum 0), (''tenure_days'', JNum 30),
                  (''interest_amount'', JNum 0), (''total_repayment'', JNum 1000),
                  (''daily_interest'', JNum 0)])"
  by (simp add: calculate_loan_def validate_request_def or_default_def default_settings_def
      round2_def round_half_even_def Let_def tool_calculate_loan_def dict_get_def
      and_then_def operand_def overflows_def)

text \<open>
  The worked example of the specification, whose intermediate values are all doubles.
\<close>

lemma calculate_loan_example:
  "calculate_loan default_settings \<lparr>amount = 1000, interest_rate = Some 15, tenure_days = Some 30\<rparr>
     = Inr \<lparr>r_amount = 1000, r_interest_rate = 15, r_tenure_days = 30,
            r_interest_amount = 150, r_total_repayment = 1150, r_daily_interest = 5\<rparr>"
  by (simp add: calculate_loan_def validate_request_def or_default_def default_settings_def
      round2_def round_half_even_def Let_def and_then_def overflows_def)

subsection \<open>Accepting a loan\<close>

text \<open>
  The first row an update has touched: when a row with the key exists, the rows of that
  key after the update start with an updated one.
\<close>

lemma filter_update_hd:
  assumes "x \<in> set xs" and "P x" and "\<And>y. P y \<Longrightarrow> P (g y)"
  shows "\<exists>y ys. filter P (map (\<lambda>y. if P y then g y else y) xs) = g y # ys \<and> P y"
  using assms(1,2)
proof (induction xs)
  case Nil
  then show ?case by simp
next
  case (Cons a as)
  show ?case
  proof (cases "P a")
    case True
    then show ?thesis using assms(3) by auto
  next
    case False
    with Cons.prems have "x \<in> set as" by auto
    from Cons.IH[OF this Cons.prems(2)] False show ?thesis by auto
  qed
qed

text \<open>
  C2, as amended. For a loan in state \<open>PENDING\<close> owned by the active caller: when the three
  database calls succeed, accept returns the updated row, every row with the key is
  \<open>APPROVED\<close> with the approval time stamped, and exactly one transaction is appended, of
  type \<open>DISBURSEMENT\<close>, with the loan's amount and with \<open>balance_after\<close> the loan's total
  repayment. The two writes are separate requests: when the insert fails after the update,
  the call raises and the status write stays, with no transaction.
\<close>

theorem accept_loan_effects:
  assumes "user_status u = ''active''"
    and "filter (\<lambda>l. loan_id l = lid \<and> loan_user_id l = user_id u) (loans s) = l # ls"
    and "loan_status l = PENDING"
  shows "(\<exists>r. accept_loan all_ok lid u now s =
           (Inr r,
            s\<lparr>loans := map (\<lambda>r. if loan_id r = lid
                                  then r\<lparr>loan_status := APPROVED, loan_approved_at := Some now\<rparr>
                                  else r) (loans s),
              transactions := transactions s @ [disbursement lid (user_id u) l (clock s)],
              clock := Suc (clock s)\<rparr>)
           \<and> loan_id r = lid \<and> loan_status r = APPROVED \<and> loan_approved_at r = Some now)
       \<and> (txn_type (disbursement lid (user_id u) l (clock s)) = DISBURSEMENT
            \<and> txn_amount (disbursement lid (user_id u) l (clock s)) = loan_amount l
            \<and> txn_balance_after (disbursement lid (user_id u) l (clock s)) = Some (loan_total_repayment l))
       \<and> accept_loan \<lparr>select_ok = True, update_ok = True, insert_ok = False\<rparr> lid u now s =
           (Inl APIError,
            s\<lparr>loans := map (\<lambda>r. if loan_id r = lid
                                  then r\<lparr>loan_status := APPROVED, loan_approved_at := Some now\<rparr>
                                  else r) (loans s)\<rparr>)"
proof -
  have "l \<in> set (filter (\<lambda>l. loan_id l = lid \<and> loan_user_id l = user_id u) (loans s))"
    unfolding assms(2) by simp
  then have lin: "l \<in> set (loans s)" and lid: "loan_id l = lid" by simp_all
  obtain y ys where f: "filter (\<lambda>r. loan_id r = lid)
        (map (\<lambda>r. if loan_id r = lid then r\<lparr>loan_status := APPROVED, loan_approved_at := Some now\<rparr> else r)
           (loans s)) = y\<lparr>loan_status := APPROVED, loan_approved_at := Some now\<rparr> # ys" and y: "loan_id y = lid"
    using filter_update_hd[of l "loans s" "\<lambda>r. loan_id r = lid"
        "\<lambda>r. r\<lparr>loan_status := APPROVED, loan_approved_at := Some now\<rparr>", OF lin lid]
    by auto
  have act: "get_current_active_user u = Inr u"
    using assms(1) by (simp add: get_current_active_user_def)
  have both: "\<exists>r. accept_loan all_ok lid u now s =
           (Inr r,
            s\<lparr>loans := map (\<lambda>r. if loan_id r = lid
                                  then r\<lparr>loan_status := APPROVED, loan_approved_at := Some now\<rparr>
                                  else r) (loans s),
              transactions := transactions s @ [disbursement lid (user_id u) l (clock s)],
              clock := Suc (clock s)\<rparr>)
           \<and> loan_id r = lid \<and> loan_status r = APPROVED \<and> loan_approved_at r = Some now"
    unfolding accept_loan_def act all_ok_def
    apply (simp only: sum.case call_outcomes.simps not_True_eq_False if_False assms(2) list.case
        assms(3) not_not refl if_True)
    apply (simp only: Let_def state.simps f list.case)
    apply (simp add: f y)
    done
  have fields: "txn_type (disbursement lid (user_id u) l (clock s)) = DISBURSEMENT
         \<and> txn_amount (disbursement lid (user_id u) l (clock s)) = loan_amount l
         \<and> txn_balance_after (disbursement lid (user_id u) l (clock s)) = Some (loan_total_repayment l)"
    by (simp add: disbursement_def)
  have torn: "accept_loan \<lparr>select_ok = True, update_ok = True, insert_ok = False\<rparr> lid u now s =
           (Inl APIError,
            s\<lparr>loans := map (\<lambda>r. if loan_id r = lid
                                  then r\<lparr>loan_status := APPROVED, loan_approved_at := Some now\<rparr>
                                  else r) (loans s)\<rparr>)"
    unfolding accept_loan_def act
    apply (simp only: sum.case call_outcomes.simps not_True_eq_False if_False assms(2) list.case
        assms(3) not_not refl if_True)
    apply (simp only: Let_def not_False_eq_True if_True)
    done
  show ?thesis
    by (rule conjI[OF both conjI[OF fields torn]])
qed

theorem accept_loan_effects_witness:
  "(\<exists>r. accept_loan all_ok ''L1'' customer1 ''2024-01-01T00:00:00'' state0 =
           (Inr r,
            state0\<lparr>loans := map (\<lambda>r. if loan_id r = ''L1''
                                  then r\<lparr>loan_status := APPROVED, loan_approved_at := Some ''2024-01-01T00:00:00''\<rparr>
                                  else r) (loans state0),
              transactions := transactions state0 @ [disbursement ''L1'' (user_id customer1) loan0 (clock state0)],
              clock := Suc (clock state0)\<rparr>)
           \<and> loan_id r = ''L1'' \<and> loan_status r = APPROVED \<and> loan_approved_at r = Some ''2024-01-01T00:00:00'')
       \<and> (txn_type (disbursement ''L1'' (user_id customer1) loan0 (clock state0)) = DISBURSEMENT
            \<and> txn_amount (disbursement ''L1'' (user_id customer1) loan0 (clock state0)) = loan_amount loan0
            \<and> txn_balance_after (disbursement ''L1'' (user_id customer1) loan0 (clock state0)) = Some (loan_total_repayment loan0))
       \<and> accept_loan \<lparr>select_ok = True, update_ok = True, insert_ok = False\<rparr> ''L1'' customer1 ''2024-01-01T00:00:00'' state0 =
           (Inl APIError,
            state0\<lparr>loans := map (\<lambda>r. if loan_id r = ''L1''
                                  then r\<lparr>loan_status := APPROVED, loan_approved_at := Some ''2024-01-01T00:00:00''\<rparr>
                                  else r) (loans state0)\<rparr>)"
  by (rule accept_loan_effects[where ls="[]"]) (simp_all add: customer1_def state0_def loan0_def)

text \<open>
  C2, as stated, fails: with the insert failing between the two writes, the pending loan
  of the caller ends \<open>APPROVED\<close> and no transaction exists.
\<close>

theorem accept_loan_not_atomic:
  "accept_loan \<lparr>select_ok = True, update_ok = True, insert_ok = False\<rparr> ''L1'' customer1 ''2024-01-01T00:00:00'' state0
     = (Inl APIError,
        state0\<lparr>loans := [loan0\<lparr>loan_status := APPROVED, loan_approved_at := Some ''2024-01-01T00:00:00''\<rparr>]\<rparr>)
   \<and> loan_status loan0 = PENDING \<and> loan_user_id loan0 = user_id customer1
   \<and> transactions state0 = []"
  by (simp add: accept_loan_def get_current_active_user_def Let_def state0_def loan0_def customer1_def)

text \<open>
  C5. For a loan of the caller that is not \<open>PENDING\<close>, accept fails and the state is the
  one before the call, whatever the outcomes of the database calls; with an active caller
  and a select that succeeds the failure is the client error 400.
\<close>

theorem accept_loan_non_pending:
  assumes "filter (\<lambda>l. loan_id l = lid \<and> loan_user_id l = user_id u) (loans s) = l # ls"
    and "loan_status l \<noteq> PENDING"
  shows "snd (accept_loan oc lid u now s) = s \<and> isl (fst (accept_loan oc lid u now s))
         \<and> (user_status u = ''active'' \<and> select_ok oc \<longrightarrow>
              accept_loan oc lid u now s =
                (Inl (HTTPException 400 ''Loan cannot be accepted in current status''), s))"
  using assms by (simp add: accept_loan_def get_current_active_user_def Let_def)

theorem accept_loan_non_pending_witness:
  "accept_loan all_ok ''L1'' customer1 ''2024-01-01T00:00:00''
      (state0\<lparr>loans := [loan0\<lparr>loan_status := APPROVED\<rparr>]\<rparr>)
     = (Inl (HTTPException 400 ''Loan cannot be accepted in current status''),
        state0\<lparr>loans := [loan0\<lparr>loan_status := APPROVED\<rparr>]\<rparr>)"
  using accept_loan_non_pending[where u=customer1 and lid="''L1''" and oc=all_ok
      and s="state0\<lparr>loans := [loan0\<lparr>loan_status := APPROVED\<rparr>]\<rparr>"
      and l="loan0\<lparr>loan_status := APPROVED\<rparr>" and ls="[]" and now="''2024-01-01T00:00:00''"]
  by (simp add: customer1_def state0_def loan0_def all_ok_def)

subsection \<open>Status transitions\<close>




subsection \<open>Tool handlers\<close>

text \<open>
  C9, as amended. For numeric operands and a tenure other than zero the tool handler makes
  no check of the amount against the configured range and signals no validation error: it
  raises \<^verbatim>\<open>OverflowError\<close> when an \<^verbatim>\<open>int\<close> operand is too large for a double, and
  otherwise returns an offer that repeats the three operands and carries the three
  computed amounts; the dispatcher hands the call to it unchanged; the route rejects an
  amount that is non-positive or outside the range.
\<close>

theorem tool_calculate_loan_no_range_check:
  assumes "map_of args ''amount'' = Some amount'"
    and "num_of amount' = Some a"
    and "num_of (dict_get args ''interest_rate'' (JNum (DEFAULT_INTEREST_RATE cfg))) = Some r"
    and "num_of (dict_get args ''tenure_days'' (JInt (DEFAULT_LOAN_TENURE_DAYS cfg))) = Some t"
    and "t \<noteq> PInt 0" and "t \<noteq> PFloat 0"
  shows "(int_too_large a r t \<longrightarrow> tool_calculate_loan cfg args = Inl OverflowError)
       \<and> (\<not> int_too_large a r t \<longrightarrow>
            (\<exists>interest_amount total_repayment daily_interest.
               tool_calculate_loan cfg args =
                 Inr (JObj [(''amount'', amount'),
                            (''interest_rate'', dict_get args ''interest_rate'' (JNum (DEFAULT_INTEREST_RATE cfg))),
                            (''tenure_days'', dict_get args ''tenure_days'' (JInt (DEFAULT_LOAN_TENURE_DAYS cfg))),
                            (''interest_amount'', interest_amount),
                            (''total_repayment'', total_repayment),
                            (''daily_interest'', daily_interest)])))
       \<and> execute_function cfg ''calculate_loan_offer'' args uid s = (tool_calculate_loan cfg args, s)
       \<and> (x \<le> 0 \<or> x < MIN_LOAN_AMOUNT cfg \<or> MAX_LOAN_AMOUNT cfg < x \<longrightarrow>
            isl (calculate_loan cfg \<lparr>amount = x, interest_rate = ro, tenure_days = to\<rparr>))"
proof -
  have route: "x \<le> 0 \<or> x < MIN_LOAN_AMOUNT cfg \<or> MAX_LOAN_AMOUNT cfg < x \<longrightarrow>
            isl (calculate_loan cfg \<lparr>amount = x, interest_rate = ro, tenure_days = to\<rparr>)"
    by (auto simp: calculate_loan_def validate_request_def)
  have disp: "execute_function cfg ''calculate_loan_offer'' args uid s = (tool_calculate_loan cfg args, s)"
    by (simp add: execute_function_def)
  have ops: "operand amount' = Inr a"
    "operand (dict_get args ''interest_rate'' (JNum (DEFAULT_INTEREST_RATE cfg))) = Inr r"
    "operand (dict_get args ''tenure_days'' (JInt (DEFAULT_LOAN_TENURE_DAYS cfg))) = Inr t"
    using assms(2,3,4) by (simp_all add: operand_def)
  have unfold: "tool_calculate_loan cfg args =
      and_then (py_mul a r) (\<lambda>p.
      and_then (py_truediv p (PInt 100)) (\<lambda>x.
      and_then (py_truediv t (PInt 30)) (\<lambda>y.
      and_then (py_mul x y) (\<lambda>interest_amount.
      and_then (py_add a interest_amount) (\<lambda>total_repayment.
      and_then (py_truediv interest_amount t) (\<lambda>daily_interest.
        Inr (JObj [(''amount'', amount'),
                   (''interest_rate'', dict_get args ''interest_rate'' (JNum (DEFAULT_INTEREST_RATE cfg))),
                   (''tenure_days'', dict_get args ''tenure_days'' (JInt (DEFAULT_LOAN_TENURE_DAYS cfg))),
                   (''interest_amount'', py_round2 interest_amount),
                   (''total_repayment'', py_round2 total_repayment),
                   (''daily_interest'', py_round2 daily_interest)])))))))"
    by (simp add: tool_calculate_loan_def assms(1) ops and_then_simps Let_def)
  have tool: "(int_too_large a r t \<longrightarrow> tool_calculate_loan cfg args = Inl OverflowError)
       \<and> (\<not> int_too_large a r t \<longrightarrow>
            (\<exists>interest_amount total_repayment daily_interest.
               tool_calculate_loan cfg args =
                 Inr (JObj [(''amount'', amount'),
                            (''interest_rate'', dict_get args ''interest_rate'' (JNum (DEFAULT_INTEREST_RATE cfg))),
                            (''tenure_days'', dict_get args ''tenure_days'' (JInt (DEFAULT_LOAN_TENURE_DAYS cfg))),
                            (''interest_amount'', interest_amount),
                            (''total_repayment'', total_repayment),
                            (''daily_interest'', daily_interest)])))"
  proof (cases t)
    case (PInt d)
    with assms(5) have d0: "d \<noteq> 0" by simp
    show ?thesis
    proof (cases "overflows (of_int d)")
      case True
      show ?thesis
        unfolding unfold PInt using True d0
        by (cases a; cases r) (auto simp: and_then_simps not_overflows_constants int_too_large_def
               dest: overflows_quotient_30)
    next
      case False
      show ?thesis
        unfolding unfold PInt using False d0
        by (cases a; cases r)
           (auto simp: and_then_simps not_overflows_constants int_too_large_def
              dest: overflows_quotient_30)
    qed
  next
    case (PFloat z)
    with assms(6) have z0: "z \<noteq> 0" by simp
    show ?thesis
      unfolding unfold PFloat using z0
      by (cases a; cases r) (auto simp: and_then_simps not_overflows_constants int_too_large_def
               dest: overflows_quotient_30)
  qed
  show ?thesis
    using tool disp route by blast
qed

theorem tool_calculate_loan_no_range_check_witness:
  "tool_calculate_loan default_settings [(''amount'', JInt 500)] =
     Inr (JObj [(''amount'', JInt 500), (''interest_rate'', JNum 15), (''tenure_days'', JInt 30),
                (''interest_amount'', JNum 75), (''total_repayment'', JNum 575),
                (''daily_interest'', JNum (5 / 2))])
   \<and> tool_calculate_loan default_settings [(''amount'', JInt (2 ^ 1024))] = Inl OverflowError
   \<and> isl (calculate_loan default_settings \<lparr>amount = 500, interest_rate = None, tenure_days = None\<rparr>)"
  using tool_calculate_loan_no_range_check[where args="[(''amount'', JInt 500)]" and amount'="JInt 500"
      and a="PInt 500" and cfg=default_settings and r="PFloat 15" and t="PInt 30" and x=500
      and ro=None and to=None]
    tool_calculate_loan_no_range_check[where args="[(''amount'', JInt (2 ^ 1024))]"
      and amount'="JInt (2 ^ 1024)" and a="PInt (2 ^ 1024)" and cfg=default_settings
      and r="PFloat 15" and t="PInt 30"]
  by (simp add: default_settings_def dict_get_def overflows_def tool_calculate_loan_def and_then_def
      operand_def round2_def round_half_even_def Let_def int_too_large_def)

text \<open>
  C9, as stated, fails: for the amount \<open>10 ^ 400\<close>, with the default rate and tenure, the
  handler returns no offer; the product with the \<^verbatim>\<open>float\<close> rate raises
  \<^verbatim>\<open>OverflowError\<close>.
\<close>

theorem tool_calculate_loan_overflow:
  "tool_calculate_loan default_settings [(''amount'', JInt (10 ^ 400))] = Inl OverflowError"
  by (simp add: tool_calculate_loan_def default_settings_def dict_get_def and_then_def operand_def
      overflows_def Let_def)

text \<open>
  C10. The acceptance handler matches rows by the key alone: whatever the owner and the
  current status of a row with that key, it writes \<open>APPROVED\<close> and the text \<^verbatim>\<open>now()\<close>
  as approval time when \<open>accepted\<close> is true, \<open>REJECTED\<close> and no approval time when it is
  false; the result reports success also when no row has the key.
\<close>

theorem store_acceptance_by_id_only:
  assumes "map_of args ''loan_id'' = Some lid" and "map_of args ''accepted'' = Some (JBool acc)"
  shows "store_acceptance args uid s =
           (Inr (JObj [(''success'', JBool True),
                       (''status'', JStr (if acc then ''approved'' else ''rejected''))]),
            s\<lparr>loans := map (\<lambda>l. if JStr (loan_id l) = lid
                                  then l\<lparr>loan_status := (if acc then APPROVED else REJECTED),
                                         loan_approved_at := (if acc then Some ''now()'' else None)\<rparr>
                                  else l) (loans s)\<rparr>)"
  using assms by (simp add: store_acceptance_def Let_def)

theorem store_acceptance_by_id_only_witness:
  "store_acceptance [(''loan_id'', JStr ''L1''), (''accepted'', JBool True)] ''someone_else''
      (state0\<lparr>loans := [loan0\<lparr>loan_status := COMPLETED\<rparr>]\<rparr>)
     = (Inr (JObj [(''success'', JBool True), (''status'', JStr ''approved'')]),
        state0\<lparr>loans := [loan0\<lparr>loan_status := APPROVED, loan_approved_at := Some ''now()''\<rparr>]\<rparr>)
   \<and> store_acceptance [(''loan_id'', JStr ''no such loan''), (''accepted'', JBool False)] ''u1'' state0
     = (Inr (JObj [(''success'', JBool True), (''status'', JStr ''rejected'')]), state0)"
  using store_acceptance_by_id_only[where args="[(''loan_id'', JStr ''L1''), (''accepted'', JBool True)]"
      and lid="JStr ''L1''" and acc=True and uid="''someone_else''"
      and s="state0\<lparr>loans := [loan0\<lparr>loan_status := COMPLETED\<rparr>]\<rparr>"]
    store_acceptance_by_id_only[where args="[(''loan_id'', JStr ''no such loan''), (''accepted'', JBool False)]"
      and lid="JStr ''no such loan''" and acc=False and uid="''u1''" and s=state0]
  by (simp add: state0_def loan0_def)

subsection \<open>Tool dispatch\<close>

text \<open>
  C7. For a name that is none of the four tool names the dispatcher returns the object
  \<^verbatim>\<open>{"error": "Unknown function"}\<close> and leaves the state as it is; within a batch that
  object is the output of the call and the remaining calls run; a poll that asks for such
  a call alone submits the output and the loop goes on polling.
\<close>

theorem execute_function_unknown:
  assumes "name \<notin> set [''calculate_loan_offer'', ''store_customer_acceptance'',
                        ''get_loan_info'', ''complete_onboarding'']"
  shows "execute_function cfg name args uid s = (Inr (JObj [(''error'', JStr ''Unknown function'')]), s)
       \<and> handle_tool_calls cfg (\<lparr>tc_id = i, tc_name = name, tc_arguments = args\<rparr> # tcs) uid s =
           (case handle_tool_calls cfg tcs uid s of
              (Inl e, s') \<Rightarrow> (Inl e, s')
            | (Inr tool_outputs, s') \<Rightarrow>
                (Inr ((i, JObj [(''error'', JStr ''Unknown function'')]) # tool_outputs), s'))
       \<and> poll_run cfg uid (\<lparr>run_status = ''requires_action'',
                             run_tool_calls = [\<lparr>tc_id = i, tc_name = name, tc_arguments = args\<rparr>]\<rparr> # ps) s =
           poll_run cfg uid ps
             (s\<lparr>submitted_tool_outputs := submitted_tool_outputs s @
                   [[(i, JObj [(''error'', JStr ''Unknown function'')])]]\<rparr>)"
proof -
  have ex: "\<And>s. execute_function cfg name args uid s = (Inr (JObj [(''error'', JStr ''Unknown function'')]), s)"
    using assms by (simp add: execute_function_def)
  show ?thesis
    by (simp add: ex split: prod.splits sum.splits)
qed

theorem execute_function_unknown_witness:
  "execute_function default_settings ''transfer_funds'' [(''amount'', JNum 5)] ''u1'' state0
     = (Inr (JObj [(''error'', JStr ''Unknown function'')]), state0)
   \<and> poll_run default_settings ''u1''
        [\<lparr>run_status = ''requires_action'',
          run_tool_calls = [\<lparr>tc_id = ''call_1'', tc_name = ''transfer_funds'', tc_arguments = [(''amount'', JNum 5)]\<rparr>]\<rparr>,
         \<lparr>run_status = ''completed'', run_tool_calls = []\<rparr>] state0
     = (Some (Inr ()),
        state0\<lparr>submitted_tool_outputs := [[(''call_1'', JObj [(''error'', JStr ''Unknown function'')])]]\<rparr>)"
  using execute_function_unknown[where name="''transfer_funds''" and cfg=default_settings
      and args="[(''amount'', JNum 5)]" and uid="''u1''" and s=state0 and i="''call_1''" and tcs="[]"
      and ps="[\<lparr>run_status = ''completed'', run_tool_calls = []\<rparr>]"]
  by (simp add: state0_def)

subsection \<open>Conversation threads\<close>

text \<open>
  The newest-first ordering keeps the number of rows, so the lookup is empty only when
  the user has no active thread.
\<close>

lemma order_desc_Nil_iff: "order_desc f xs = [] \<longleftrightarrow> xs = []"
proof -
  have "length (order_desc f xs) = length xs" by (simp add: order_desc_def)
  then show ?thesis by (metis length_0_conv)
qed

lemma active_thread_Nil:
  "active_thread uid s = [] \<Longrightarrow>
     filter (\<lambda>t. thread_user_id t = uid \<and> thread_status t = ''active'') (conversation_threads s) = []"
  by (simp add: active_thread_def order_desc_Nil_iff)

text \<open>
  C8. A second call of \<^verbatim>\<open>get_or_create_thread\<close> for the same user, made on the state the
  first call left, returns the handle the first call returned and changes nothing,
  whatever handle the assistant API would hand out for a new thread.
\<close>

theorem get_or_create_thread_twice:
  "get_or_create_thread uid h2 (snd (get_or_create_thread uid h1 s))
     = (fst (get_or_create_thread uid h1 s), snd (get_or_create_thread uid h1 s))"
proof (cases "active_thread uid s")
  case Nil
  let ?row = "\<lparr>thread_id = clock s, thread_user_id = uid, openai_thread_id = h1,
                 thread_status = ''active'', thread_created_at = clock s\<rparr>"
  let ?s' = "s\<lparr>conversation_threads := conversation_threads s @ [?row], clock := Suc (clock s)\<rparr>"
  have first: "get_or_create_thread uid h1 s = (h1, ?s')"
    by (simp add: get_or_create_thread_def Nil create_thread_def Let_def)
  have "active_thread uid ?s' = [?row]"
    by (simp add: active_thread_def active_thread_Nil[OF Nil] order_desc_def)
  then have "get_or_create_thread uid h2 ?s' = (h1, ?s')"
    by (simp add: get_or_create_thread_def)
  then show ?thesis by (simp add: first)
next
  case (Cons t ts)
  then have "get_or_create_thread uid h1 s = (openai_thread_id t, s)"
    and "get_or_create_thread uid h2 s = (openai_thread_id t, s)"
    by (simp_all add: get_or_create_thread_def)
  then show ?thesis by simp
qed

theorem get_or_create_thread_twice_witness:
  "get_or_create_thread ''u1'' ''thread_b'' (snd (get_or_create_thread ''u1'' ''thread_a'' state0))
     = (''thread_a'', snd (get_or_create_thread ''u1'' ''thread_a'' state0))
   \<and> get_or_create_thread ''u1'' ''thread_b'' (snd (get_or_create_thread ''u1'' ''thread_a'' state1))
     = (''thread_1'', state1)"
  using get_or_create_thread_twice[of "''u1''" "''thread_b''" "''thread_a''" state0]
    get_or_create_thread_twice[of "''u1''" "''thread_b''" "''thread_a''" state1]
  by (simp add: get_or_create_thread_def active_thread_def order_desc_def create_thread_def
      state0_def state1_def Let_def)

subsection \<open>A run that fails\<close>

text \<open>
  No tool handler, no batch and no poll touches the table of messages; a list of polls
  is worked off front to back.
\<close>

lemma messages_execute_function:
  "messages (snd (execute_function cfg name args uid s)) = messages s"
  by (simp add: execute_function_def store_acceptance_def complete_onboarding_def Let_def
      split: option.splits json.splits)

lemma messages_handle_tool_calls:
  "messages (snd (handle_tool_calls cfg tcs uid s)) = messages s"
proof (induction tcs arbitrary: s)
  case Nil
  then show ?case by simp
next
  case (Cons tc tcs)
  obtain r s' where e: "execute_function cfg (tc_name tc) (tc_arguments tc) uid s = (r, s')"
    by (cases "execute_function cfg (tc_name tc) (tc_arguments tc) uid s")
  have m: "messages s' = messages s"
    using messages_execute_function[of cfg "tc_name tc" "tc_arguments tc" uid s] e by simp
  show ?case
  proof (cases r)
    case (Inl err)
    then show ?thesis using e m by simp
  next
    case (Inr res)
    obtain r2 s2 where h: "handle_tool_calls cfg tcs uid s' = (r2, s2)"
      by (cases "handle_tool_calls cfg tcs uid s'")
    have "messages s2 = messages s'"
      using Cons.IH[of s'] h by simp
    then show ?thesis using e m h Inr by (cases r2) simp_all
  qed
qed

lemma messages_poll_run:
  "messages (snd (poll_run cfg uid polls s)) = messages s"
proof (induction polls arbitrary: s)
  case Nil
  then show ?case by simp
next
  case (Cons p ps)
  obtain r s' where h: "handle_tool_calls cfg (run_tool_calls p) uid s = (r, s')"
    by (cases "handle_tool_calls cfg (run_tool_calls p) uid s")
  have m: "messages s' = messages s"
    using messages_handle_tool_calls[of cfg "run_tool_calls p" uid s] h by simp
  show ?case
  proof (cases r)
    case (Inl err)
    then show ?thesis using h m Cons.IH[of s] by simp
  next
    case (Inr outs)
    have "messages (snd (poll_run cfg uid ps (s'\<lparr>submitted_tool_outputs := submitted_tool_outputs s' @ [outs]\<rparr>)))
            = messages s"
      using Cons.IH[of "s'\<lparr>submitted_tool_outputs := submitted_tool_outputs s' @ [outs]\<rparr>"] m by simp
    then show ?thesis using h Inr Cons.IH[of s] by simp
  qed
qed

lemma poll_run_append:
  "poll_run cfg uid (pre @ qs) s =
     (case poll_run cfg uid pre s of
        (None, s1) \<Rightarrow> poll_run cfg uid qs s1
      | (Some r, s1) \<Rightarrow> (Some r, s1))"
proof (induction pre arbitrary: s)
  case Nil
  then show ?case by simp
next
  case (Cons p ps)
  show ?case
    by (simp add: Cons.IH split: prod.splits sum.splits)
qed

text \<open>
  C6. When the polls reach an answer with status \<^verbatim>\<open>failed\<close>, \<^verbatim>\<open>cancelled\<close> or
  \<^verbatim>\<open>expired\<close> (the loop is still polling after the answers before it), \<^verbatim>\<open>send_message\<close>
  raises an exception whose message carries that status; the table of messages is the one
  left by storing the user's message, and it holds no assistant row that was not there
  before the call.
\<close>

theorem send_message_run_failed:
  assumes "run_status p \<in> set [''failed'', ''cancelled'', ''expired'']"
    and "poll_run cfg uid pre (store_message tid ''user'' msg s) = (None, s1)"
  shows "send_message cfg tid msg uid (pre @ p # rest) latest s =
           (Some (Inl (Exception (''Run failed with status: '' @ run_status p))), s1)
       \<and> messages s1 = messages (store_message tid ''user'' msg s)
       \<and> filter (\<lambda>m. message_role m = ''assistant'') (messages s1) =
           filter (\<lambda>m. message_role m = ''assistant'') (messages s)"
proof -
  have p: "poll_run cfg uid (p # rest) s1 =
             (Some (Inl (Exception (''Run failed with status: '' @ run_status p))), s1)"
    using assms(1) by auto
  have run: "poll_run cfg uid (pre @ p # rest) (store_message tid ''user'' msg s) =
             (Some (Inl (Exception (''Run failed with status: '' @ run_status p))), s1)"
    unfolding poll_run_append assms(2) using p by simp
  have m: "messages s1 = messages (store_message tid ''user'' msg s)"
    using messages_poll_run[of cfg uid pre "store_message tid ''user'' msg s"] assms(2) by simp
  have u: "filter (\<lambda>m. message_role m = ''assistant'') (messages (store_message tid ''user'' msg s)) =
           filter (\<lambda>m. message_role m = ''assistant'') (messages s)"
    by (simp add: store_message_def split: list.splits)
  show ?thesis
    using run m u by (simp add: send_message_def)
qed

theorem send_message_run_failed_witness:
  "send_message default_settings ''thread_1'' ''hello'' ''u1''
      [\<lparr>run_status = ''queued'', run_tool_calls = []\<rparr>,
       \<lparr>run_status = ''in_progress'', run_tool_calls = []\<rparr>,
       \<lparr>run_status = ''failed'', run_tool_calls = []\<rparr>] [''an answer''] state1
     = (Some (Inl (Exception ''Run failed with status: failed'')),
        state1\<lparr>messages := [\<lparr>message_thread_id = 0, message_role = ''user'',
                                 message_content = ''hello'', message_created_at = 1\<rparr>],
               clock := 2\<rparr>)"
  using send_message_run_failed[where cfg=default_settings and tid="''thread_1''" and msg="''hello''"
      and uid="''u1''" and s=state1 and latest="[''an answer'']" and rest="[]"
      and p="\<lparr>run_status = ''failed'', run_tool_calls = []\<rparr>"
      and pre="[\<lparr>run_status = ''queued'', run_tool_calls = []\<rparr>,
               \<lparr>run_status = ''in_progress'', run_tool_calls = []\<rparr>]"
      and ?s1.0="store_message ''thread_1'' ''user'' ''hello'' state1"]
  by (simp add: store_message_def state0_def state1_def)

end
